theory Spec2Isabelle
  imports Main "HOL-Library.Word"
begin

section \<open>The command shell of shell.c\<close>

text \<open>
  The model follows \<^verbatim>\<open>src/shell.c\<close> function by function. The shell is one process
  that talks to its operating system through library calls. Every call whose result the
  source stores or tests is answered by a field of the record \<open>os\<close>; what the shell
  itself does is recorded as a list of events, in program order. The events of a forked
  child (the copy of the shell that runs lines 152 to 169) are placed where they happen:
  after the \<open>Fork\<close> event of the parent and before its \<open>Wait\<close> event.

  Standard input is a finite string: whatever makes \<open>fgets\<close> return the null pointer,
  the end of the file or a read error, is the end of that string. Buffering of the stdio
  streams and signals that arrive from outside are not part of the model.
\<close>

subsection \<open>Values exchanged with the operating system\<close>

datatype errno = EFAULT | ENOENT | EACCES | ENOTDIR | ENOTTY | EPERM | EAGAIN | ECHILD
  | ERANGE | ENOEXEC | Errno nat

datatype signal = SIGTTIN

datatype termios = Termios nat

text \<open>The three results of \<open>fork\<close>: \<open>-1\<close> in the caller, or a new process in which
  it returns \<open>0\<close> while the caller receives the (positive) process id.\<close>

datatype fork_result = Fork_error errno | Fork_ok int

text \<open>What \<open>execv\<close> does in the process that calls it: it returns \<open>-1\<close>, or the image
  is replaced by a program that later terminates, or by one that never does.\<close>

datatype exec_result = Exec_fails errno | Program_exits int | Program_runs_forever

text \<open>\<open>wait(NULL)\<close> either consumes the termination of a child or, when the caller has
  no child, returns \<open>-1\<close> at once.\<close>

datatype wait_result = Reaped | No_child

datatype event =
    Kill int signal
  | Tcsetpgrp int int "errno option"
  | Tcgetattr int "errno option"
  | Prompt string
  | Fgets "string option"
  | Stdout string
  | Stderr string
  | Perror "string option" errno
  | Getenv string "string option"
  | Chdir "string option" "errno option"
  | Getcwd "errno option"
  | Fork fork_result
  | Execv "string option" "string option list" exec_result
  | Child_exit int
  | Wait wait_result

text \<open>How a run of \<open>main\<close> ends: \<open>return\<close> from \<open>main\<close>, a call of \<open>exit\<close>, or
  a \<open>wait\<close> that never returns because the child never terminates.\<close>

datatype outcome = Main_returned int | Exit_called int | Blocked_in_wait

datatype 'a step = Continue 'a | Terminated outcome

text \<open>The answers of the operating system. The directory type \<open>'d\<close> stands for the
  directory a process is in. The argument of type \<open>nat\<close> is the number of the loop
  iteration (or of the poll, in \<open>init_shell\<close>) at which the call is made, so that the
  answers may change while the shell runs. \<open>os_tokenize\<close> is the tokenizer of
  \<^verbatim>\<open>tokenizer.h\<close>, which the shell only calls.\<close>

record 'd os =
  os_isatty :: "int \<Rightarrow> bool"
  os_tcgetpgrp :: "nat \<Rightarrow> int \<Rightarrow> int"
  os_getpgrp :: "nat \<Rightarrow> int"
  os_getpid :: int
  os_tcsetpgrp :: "int \<Rightarrow> int \<Rightarrow> errno option"
  os_tcgetattr :: "int \<Rightarrow> errno + termios"
  os_getenv :: "string \<Rightarrow> string option"
  os_chdir :: "nat \<Rightarrow> 'd \<Rightarrow> string \<Rightarrow> errno + 'd"
  os_getcwd :: "nat \<Rightarrow> 'd \<Rightarrow> errno + string"
  os_fork :: "nat \<Rightarrow> fork_result"
  os_execv :: "nat \<Rightarrow> string \<Rightarrow> string option list \<Rightarrow> exec_result"
  os_tokenize :: "string \<Rightarrow> string list"

definition STDIN_FILENO :: int where
  "STDIN_FILENO = 0"

definition EXIT_FAILURE :: int where
  "EXIT_FAILURE = 1"

definition newline :: char where
  "newline = CHR 0x0A"

subsection \<open>Tokens\<close>

text \<open>Modelled from the spec: the accessors of \<^verbatim>\<open>tokenizer.h\<close> are not part of
  \<^verbatim>\<open>shell.c\<close>. The spec describes Tokens as an ordered, zero-indexed sequence of
  word strings with a length, and the first token as possibly absent.\<close>

definition tokens_get_length :: "string list \<Rightarrow> nat" where
  "tokens_get_length tokens = length tokens"

text \<open>Modelled from the spec: \<open>token_at(Tokens, index)\<close>; an index without a token gives
  the absent (null) string.\<close>

definition tokens_get_token :: "string list \<Rightarrow> nat \<Rightarrow> string option" where
  "tokens_get_token tokens n = (if n < length tokens then Some (tokens ! n) else None)"

subsection \<open>The builtin table and \<open>lookup\<close>\<close>

datatype cmd_fun = Cmd_exit | Cmd_help | Cmd_pwd | Cmd_cd

record fun_desc =
  func :: cmd_fun
  cmd :: string
  doc :: string

definition cmd_table :: "fun_desc list" where
  "cmd_table =
    [\<lparr>func = Cmd_exit, cmd = ''exit'', doc = ''exit the command shell''\<rparr>,
     \<lparr>func = Cmd_help, cmd = ''?'', doc = ''show this help menu''\<rparr>,
     \<lparr>func = Cmd_pwd, cmd = ''pwd'', doc = ''prints working directory''\<rparr>,
     \<lparr>func = Cmd_cd, cmd = ''cd'', doc = ''changes directory''\<rparr>]"

text \<open>The loop of \<open>lookup\<close> from index \<open>i\<close> on, over the entries not yet visited.\<close>

fun lookup_from :: "nat \<Rightarrow> fun_desc list \<Rightarrow> string option \<Rightarrow> int" where
  "lookup_from i [] c = - 1"
| "lookup_from i (d # ds) c =
    (case c of
       None \<Rightarrow> lookup_from (Suc i) ds c
     | Some s \<Rightarrow> if cmd d = s then int i else lookup_from (Suc i) ds c)"

definition lookup :: "string option \<Rightarrow> int" where
  "lookup c = lookup_from 0 cmd_table c"

subsection \<open>The builtin handlers\<close>

text \<open>A handler returns its events, and either its return value together with the
  working directory it leaves, or the status it passed to \<open>exit\<close>.\<close>

datatype 'd handled = Ret int 'd | Exits int

definition cmd_help :: "'d \<Rightarrow> string list \<Rightarrow> event list \<times> 'd handled" where
  "cmd_help cwd tokens =
    (map (\<lambda>d. Stdout (cmd d @ '' - '' @ doc d @ [newline])) cmd_table, Ret 1 cwd)"

definition cmd_exit :: "'d \<Rightarrow> string list \<Rightarrow> event list \<times> 'd handled" where
  "cmd_exit cwd tokens = ([], Exits 0)"

text \<open>\<open>getcwd\<close> into a buffer of 1024 bytes: whether the path fits is part of the
  answer of the operating system.\<close>

definition cmd_pwd :: "'d os \<Rightarrow> nat \<Rightarrow> 'd \<Rightarrow> string list \<Rightarrow> event list \<times> 'd handled" where
  "cmd_pwd os n cwd tokens =
    (case os_getcwd os n cwd of
       Inr path \<Rightarrow> ([Getcwd None, Stdout (path @ [newline])], Ret 1 cwd)
     | Inl e \<Rightarrow> ([Getcwd (Some e), Perror (Some ''getcwd() error'') e], Ret 1 cwd))"

text \<open>\<open>chdir\<close> with a null pointer fails with \<open>EFAULT\<close>; otherwise the operating system
  decides. On success the process is in the directory the path names.\<close>

definition chdir :: "'d os \<Rightarrow> nat \<Rightarrow> 'd \<Rightarrow> string option \<Rightarrow> errno + 'd" where
  "chdir os n cwd path =
    (case path of None \<Rightarrow> Inl EFAULT | Some p \<Rightarrow> os_chdir os n cwd p)"

text \<open>The two places of \<open>cmd_cd\<close> that call \<open>chdir\<close> and report with \<open>perror("cd")\<close>.\<close>

definition chdir_or_perror :: "'d os \<Rightarrow> nat \<Rightarrow> 'd \<Rightarrow> string option \<Rightarrow> event list \<times> 'd" where
  "chdir_or_perror os n cwd path =
    (case chdir os n cwd path of
       Inr d \<Rightarrow> ([Chdir path None], d)
     | Inl e \<Rightarrow> ([Chdir path (Some e), Perror (Some ''cd'') e], cwd))"

definition cmd_cd :: "'d os \<Rightarrow> nat \<Rightarrow> 'd \<Rightarrow> string list \<Rightarrow> event list \<times> 'd handled" where
  "cmd_cd os n cwd tokens =
    (if tokens_get_length tokens = 1 then
       (case os_getenv os ''HOME'' of
          Some home \<Rightarrow>
            (case chdir_or_perror os n cwd (Some home) of
               (evs, d) \<Rightarrow> (Getenv ''HOME'' (Some home) # evs, Ret 1 d))
        | None \<Rightarrow>
            ([Getenv ''HOME'' None,
              Stderr (''No HOME environment variable set.'' @ [newline])], Ret 1 cwd))
     else
       (case chdir_or_perror os n cwd (tokens_get_token tokens 1) of
          (evs, d) \<Rightarrow> (evs, Ret 1 d)))"

text \<open>The call through the function pointer \<open>cmd_table[fundex].fun\<close>.\<close>

fun call_cmd :: "cmd_fun \<Rightarrow> 'd os \<Rightarrow> nat \<Rightarrow> 'd \<Rightarrow> string list \<Rightarrow> event list \<times> 'd handled" where
  "call_cmd Cmd_exit os n cwd tokens = cmd_exit cwd tokens"
| "call_cmd Cmd_help os n cwd tokens = cmd_help cwd tokens"
| "call_cmd Cmd_pwd os n cwd tokens = cmd_pwd os n cwd tokens"
| "call_cmd Cmd_cd os n cwd tokens = cmd_cd os n cwd tokens"

subsection \<open>Initialization\<close>

record globals =
  shell_is_interactive :: bool
  shell_terminal :: int
  shell_tmodes :: "termios option"
  shell_pgid :: int

text \<open>The globals of a C program start zeroed; \<open>None\<close> stands for the terminal modes
  that were never written.\<close>

definition globals0 :: globals where
  "globals0 = \<lparr>shell_is_interactive = False, shell_terminal = 0,
               shell_tmodes = None, shell_pgid = 0\<rparr>"

text \<open>The \<open>while\<close> loop of \<open>init_shell\<close>, from poll number \<open>k\<close> on. It assigns
  \<open>shell_pgid\<close> in its condition and may run forever, which is the value \<open>None\<close>.\<close>

partial_function (option) foreground_loop ::
  "'d os \<Rightarrow> int \<Rightarrow> nat \<Rightarrow> event list \<Rightarrow> (int \<times> event list) option" where
  "foreground_loop os fd k evs =
    (let pgid = os_getpgrp os k in
     if os_tcgetpgrp os k fd \<noteq> pgid
     then foreground_loop os fd (Suc k) (evs @ [Kill (- pgid) SIGTTIN])
     else Some (pgid, evs))"

definition init_shell :: "'d os \<Rightarrow> globals \<Rightarrow> (globals \<times> event list) option" where
  "init_shell os g =
    (let g1 = g\<lparr>shell_terminal := STDIN_FILENO\<rparr>;
         g2 = g1\<lparr>shell_is_interactive := os_isatty os (shell_terminal g1)\<rparr>
     in if shell_is_interactive g2 then
          (case foreground_loop os (shell_terminal g2) 0 [] of
             None \<Rightarrow> None
           | Some (pgid, evs) \<Rightarrow>
               (let g3 = g2\<lparr>shell_pgid := os_getpid os\<rparr>;
                    r = os_tcsetpgrp os (shell_terminal g3) (shell_pgid g3);
                    a = os_tcgetattr os (shell_terminal g3);
                    g4 = (case a of Inr t \<Rightarrow> g3\<lparr>shell_tmodes := Some t\<rparr> | Inl e \<Rightarrow> g3)
                in Some (g4, evs @ [Tcsetpgrp (shell_terminal g3) (shell_pgid g3) r,
                                    Tcgetattr (shell_terminal g3)
                                      (case a of Inr t \<Rightarrow> None | Inl e \<Rightarrow> Some e)])))
        else Some (g2, []))"

subsection \<open>Reading a line and printing a prompt\<close>

text \<open>\<open>fgets(line, size, stdin)\<close> on the unread input: at most \<open>size - 1\<close> characters,
  up to and including the first newline; a null result at the end of the input.\<close>

fun fgets_take :: "nat \<Rightarrow> string \<Rightarrow> string \<times> string" where
  "fgets_take n [] = ([], [])"
| "fgets_take n (c # cs) =
    (if n = 0 then ([], c # cs)
     else if c = newline then ([c], cs)
     else (case fgets_take (n - 1) cs of (l, r) \<Rightarrow> (c # l, r)))"

definition fgets :: "nat \<Rightarrow> string \<Rightarrow> (string \<times> string) option" where
  "fgets sz inp = (if inp = [] then None else Some (fgets_take (sz - 1) inp))"

text \<open>A buffer is read as a C string: it ends before its first zero byte.\<close>

definition c_str :: "string \<Rightarrow> string" where
  "c_str buf = takeWhile (\<lambda>c. c \<noteq> CHR 0x00) buf"

text \<open>The conversion \<open>%d\<close>.\<close>

fun digits :: "nat \<Rightarrow> string" where
  "digits n =
    (if n < 10 then [''0123456789'' ! n]
     else digits (n div 10) @ [''0123456789'' ! (n mod 10)])"

definition string_of_int :: "int \<Rightarrow> string" where
  "string_of_int i = (if i < 0 then CHR ''-'' # digits (nat (- i)) else digits (nat i))"

text \<open>\<open>fprintf(stdout, "%d: ", line_num)\<close>; \<open>line_num\<close> is a 32-bit \<open>int\<close>. Its
  increment is taken to wrap around after \<open>2147483647\<close> lines, where C leaves the
  overflow undefined.\<close>

definition prompt :: "32 word \<Rightarrow> event" where
  "prompt line_num = Prompt (string_of_int (sint line_num) @ '': '')"

subsection \<open>Spawning an external program\<close>

text \<open>\<open>execv\<close> with a null path fails with \<open>EFAULT\<close>; otherwise the operating system
  decides.\<close>

definition execv :: "'d os \<Rightarrow> nat \<Rightarrow> string option \<Rightarrow> string option list \<Rightarrow> exec_result" where
  "execv os n path argv =
    (case path of None \<Rightarrow> Exec_fails EFAULT | Some p \<Rightarrow> os_execv os n p argv)"

text \<open>The array \<open>argv_exec\<close> of \<open>num_tokens + 1\<close> pointers, as lines 156 to 161 fill it.\<close>

definition argv_exec :: "string list \<Rightarrow> string option list" where
  "argv_exec tokens =
    (let num_tokens = tokens_get_length tokens
     in map (tokens_get_token tokens) [0..<num_tokens] @ [None])"

text \<open>The branch \<open>pid == 0\<close>: what the child does, and whether it terminates.\<close>

definition child :: "'d os \<Rightarrow> nat \<Rightarrow> string list \<Rightarrow> event list \<times> bool" where
  "child os n tokens =
    (let argv = argv_exec tokens; path = hd argv
     in case execv os n path argv of
          Exec_fails e \<Rightarrow>
            ([Execv path argv (Exec_fails e), Perror path e, Child_exit EXIT_FAILURE], True)
        | Program_exits s \<Rightarrow> ([Execv path argv (Program_exits s)], True)
        | Program_runs_forever \<Rightarrow> ([Execv path argv Program_runs_forever], False))"

text \<open>Lines 150 to 176. A failed \<open>fork\<close> returns \<open>-1\<close>, which is not \<open>0\<close>: the caller
  takes the parent branch and its \<open>wait\<close> finds no child.\<close>

definition spawn :: "'d os \<Rightarrow> nat \<Rightarrow> 'd \<Rightarrow> string list \<Rightarrow> event list \<times> 'd step" where
  "spawn os n cwd tokens =
    (case os_fork os n of
       Fork_error e \<Rightarrow> ([Fork (Fork_error e), Wait No_child], Continue cwd)
     | Fork_ok pid \<Rightarrow>
         (case child os n tokens of
            (cevs, terminates) \<Rightarrow>
              if terminates then (Fork (Fork_ok pid) # cevs @ [Wait Reaped], Continue cwd)
              else (Fork (Fork_ok pid) # cevs, Terminated Blocked_in_wait)))"

subsection \<open>The loop of \<open>main\<close>\<close>

record 'd loop_state =
  stdin :: string
  cwd :: 'd
  line_num :: "32 word"
  iter :: nat

text \<open>Lines 144 to 177: dispatch of one tokenized line.\<close>

definition dispatch :: "'d os \<Rightarrow> nat \<Rightarrow> 'd \<Rightarrow> string list \<Rightarrow> event list \<times> 'd step" where
  "dispatch os n d tokens =
    (let fundex = lookup (tokens_get_token tokens 0)
     in if fundex \<ge> 0 then
          (case call_cmd (func (cmd_table ! nat fundex)) os n d tokens of
             (evs, Ret v d') \<Rightarrow> (evs, Continue d')
           | (evs, Exits s) \<Rightarrow> (evs, Terminated (Exit_called s)))
        else spawn os n d tokens)"

text \<open>Lines 141 to 184: the body of the loop for one line that \<open>fgets\<close> returned.\<close>

definition loop_body ::
  "'d os \<Rightarrow> globals \<Rightarrow> 'd loop_state \<Rightarrow> string \<Rightarrow> event list \<times> ('d \<times> 32 word) step" where
  "loop_body os g st line =
    (let tokens = os_tokenize os (c_str line)
     in case dispatch os (iter st) (cwd st) tokens of
          (evs, Terminated out) \<Rightarrow> (evs, Terminated out)
        | (evs, Continue d) \<Rightarrow>
            if shell_is_interactive g
            then (evs @ [prompt (line_num st + 1)], Continue (d, line_num st + 1))
            else (evs, Continue (d, line_num st)))"

lemma fgets_take_length: "length (fst (fgets_take n inp)) + length (snd (fgets_take n inp)) = length inp"
  by (induction n inp rule: fgets_take.induct) (auto split: prod.splits)

lemma fgets_take_progress: "0 < n \<Longrightarrow> inp \<noteq> [] \<Longrightarrow> length (snd (fgets_take n inp)) < length inp"
proof (cases inp)
  case Nil
  assume "inp \<noteq> []"
  with Nil show ?thesis by simp
next
  case (Cons c cs)
  assume "0 < n"
  have "length (snd (fgets_take (n - 1) cs)) \<le> length cs"
    using fgets_take_length [of "n - 1" cs] by linarith
  with Cons \<open>0 < n\<close> show ?thesis
    by (auto split: prod.splits)
qed

lemma fgets_progress: "fgets 4096 inp = Some (line, rest) \<Longrightarrow> length rest < length inp"
  using fgets_take_progress [of 4095 inp]
  by (auto simp: fgets_def split: if_splits)

function main_loop :: "'d os \<Rightarrow> globals \<Rightarrow> 'd loop_state \<Rightarrow> event list \<times> outcome" where
  "main_loop os g st =
    (case fgets 4096 (stdin st) of
       None \<Rightarrow> ([Fgets None], Main_returned 0)
     | Some (line, rest) \<Rightarrow>
         (case loop_body os g st line of
            (evs, Terminated out) \<Rightarrow> (Fgets (Some line) # evs, out)
          | (evs, Continue (d, ln)) \<Rightarrow>
              (case main_loop os g \<lparr>stdin = rest, cwd = d, line_num = ln, iter = Suc (iter st)\<rparr> of
                 (evs', out) \<Rightarrow> (Fgets (Some line) # evs @ evs', out))))"
  by pat_completeness auto
termination
  by (relation "measure (\<lambda>(os, g, st). length (stdin st))") (auto dest: fgets_progress)

declare main_loop.simps [simp del]

text \<open>\<open>main\<close>, started on the input \<open>inp\<close> in the directory \<open>d\<close>. \<open>None\<close>: the loop of
  \<open>init_shell\<close> never ends.\<close>

definition main :: "'d os \<Rightarrow> string \<Rightarrow> 'd \<Rightarrow> (event list \<times> outcome) option" where
  "main os inp d =
    (case init_shell os globals0 of
       None \<Rightarrow> None
     | Some (g, ievs) \<Rightarrow>
         (case main_loop os g \<lparr>stdin = inp, cwd = d, line_num = 0, iter = 0\<rparr> of
            (evs, out) \<Rightarrow>
              Some (ievs @ (if shell_is_interactive g then [prompt 0] else []) @ evs, out)))"

subsection \<open>Reading the events of a run\<close>

fun is_report :: "event \<Rightarrow> bool" where
  "is_report (Stderr s) = True"
| "is_report (Perror s e) = True"
| "is_report e = False"

text \<open>A call of a builtin handler that failed, or a failed \<open>execv\<close>.\<close>

definition is_failure :: "event \<Rightarrow> bool" where
  "is_failure ev =
    (case ev of
       Getenv v r \<Rightarrow> r = None
     | Chdir p r \<Rightarrow> r \<noteq> None
     | Getcwd r \<Rightarrow> r \<noteq> None
     | Execv p argv r \<Rightarrow> (case r of Exec_fails e \<Rightarrow> True | _ \<Rightarrow> False)
     | _ \<Rightarrow> False)"

text \<open>\<open>reported evs\<close>: every failure in \<open>evs\<close> is directly followed by a report on
  standard error.\<close>

fun reported :: "event list \<Rightarrow> bool" where
  "reported [] = True"
| "reported (ev # evs) =
    (if is_failure ev then (case evs of [] \<Rightarrow> False | r # _ \<Rightarrow> is_report r \<and> reported evs)
     else reported evs)"

text \<open>The lines that were read, one after the other.\<close>

fun lines_read :: "event list \<Rightarrow> string" where
  "lines_read [] = []"
| "lines_read (ev # evs) =
    (case ev of Fgets (Some l) \<Rightarrow> l @ lines_read evs | _ \<Rightarrow> lines_read evs)"

fun is_prompt :: "event \<Rightarrow> bool" where
  "is_prompt (Prompt s) = True"
| "is_prompt e = False"

fun is_read :: "event \<Rightarrow> bool" where
  "is_read (Fgets l) = True"
| "is_read e = False"



fun is_terminal_control :: "event \<Rightarrow> bool" where
  "is_terminal_control (Kill p s) = True"
| "is_terminal_control (Tcsetpgrp fd p r) = True"
| "is_terminal_control (Tcgetattr fd r) = True"
| "is_terminal_control e = False"


text \<open>The events of one dispatch: no prompt, read or terminal control among them, every
  failure reported, and no child that exits with status zero.\<close>

definition body_ok :: "event list \<Rightarrow> bool" where
  "body_ok evs =
    ((\<forall>e\<in>set evs. \<not> is_prompt e \<and> \<not> is_read e \<and> \<not> is_terminal_control e)
     \<and> reported evs \<and> (evs \<noteq> [] \<longrightarrow> \<not> is_failure (last evs))
     \<and> (\<forall>s. Child_exit s \<in> set evs \<longrightarrow> s \<noteq> 0))"


subsection \<open>A small operating system for the examples\<close>

text \<open>A tokenizer that splits at blanks and newlines, for the examples only.\<close>

fun words_acc :: "string \<Rightarrow> string \<Rightarrow> string list" where
  "words_acc w [] = (if w = [] then [] else [w])"
| "words_acc w (c # cs) =
    (if c = CHR '' '' \<or> c = newline
     then (if w = [] then words_acc [] cs else w # words_acc [] cs)
     else words_acc (w @ [c]) cs)"

text \<open>An interactive session that reaches the foreground at the third poll. The only
  directories are \<open>/\<close>, \<open>/tmp\<close> and \<open>/home/u\<close>, the only programs \<open>/t\<close>, which
  terminates, and \<open>/y\<close>, which runs forever.\<close>

definition demo_os :: "string os" where
  "demo_os =
    \<lparr>os_isatty = (\<lambda>fd. True),
     os_tcgetpgrp = (\<lambda>k fd. if k < 2 then 7 else 42),
     os_getpgrp = (\<lambda>k. 42),
     os_getpid = 42,
     os_tcsetpgrp = (\<lambda>fd pgid. None),
     os_tcgetattr = (\<lambda>fd. Inr (Termios 5)),
     os_getenv = (\<lambda>v. if v = ''HOME'' then Some ''/home/u'' else None),
     os_chdir = (\<lambda>n d p. if p = ''/'' \<or> p = ''/tmp'' \<or> p = ''/home/u'' then Inr p
                          else Inl ENOENT),
     os_getcwd = (\<lambda>n d. Inr d),
     os_fork = (\<lambda>n. Fork_ok (100 + int n)),
     os_execv = (\<lambda>n p argv. if p = ''/t'' then Program_exits 0
                             else if p = ''/y'' then Program_runs_forever
                             else Exec_fails ENOENT),
     os_tokenize = words_acc []\<rparr>"

text \<open>The same session with its input not a terminal.\<close>

definition piped_os :: "string os" where
  "piped_os = demo_os\<lparr>os_isatty := (\<lambda>fd. False)\<rparr>"

text \<open>A terminal whose control operations fail, and no \<open>HOME\<close>.\<close>

definition broken_tty_os :: "string os" where
  "broken_tty_os =
    demo_os\<lparr>os_tcgetpgrp := (\<lambda>k fd. 42),
            os_tcsetpgrp := (\<lambda>fd pgid. Some EPERM),
            os_tcgetattr := (\<lambda>fd. Inl ENOTTY),
            os_getenv := (\<lambda>v. None)\<rparr>"

section \<open>The builtin registry\<close>

lemma lookup_Some:
  "lookup (Some s) =
    (if s = ''exit'' then 0 else if s = ''?'' then 1 else if s = ''pwd'' then 2
     else if s = ''cd'' then 3 else - 1)"
  by (simp add: lookup_def cmd_table_def eq_commute)

lemma lookup_None: "lookup None = - 1"
  by (simp add: lookup_def cmd_table_def)

text \<open>
  Claim C1, as the code has it. The registry recognizes exactly the four command names
  \<open>exit\<close>, \<open>?\<close>, \<open>pwd\<close> and \<open>cd\<close>: \<open>lookup\<close> returns a non-negative index exactly
  for these names, the entry at that index carries the name that was looked up and the
  handler of that command, and for every other string and for an absent first token it
  returns \<open>-1\<close>. The comparison is equality of strings, hence case-sensitive.
\<close>

theorem lookup_exact:
  "(0 \<le> lookup c) = (c \<in> {Some ''exit'', Some ''?'', Some ''pwd'', Some ''cd''})
   \<and> (lookup c < 0 \<longrightarrow> lookup c = - 1)
   \<and> (0 \<le> lookup c \<longrightarrow>
        nat (lookup c) < length cmd_table \<and> Some (cmd (cmd_table ! nat (lookup c))) = c)
   \<and> lookup None = - 1
   \<and> func (cmd_table ! nat (lookup (Some ''exit''))) = Cmd_exit
   \<and> func (cmd_table ! nat (lookup (Some ''?''))) = Cmd_help
   \<and> func (cmd_table ! nat (lookup (Some ''pwd''))) = Cmd_pwd
   \<and> func (cmd_table ! nat (lookup (Some ''cd''))) = Cmd_cd"
proof (cases c)
  case None
  then show ?thesis
    by (simp add: lookup_None lookup_Some cmd_table_def)
next
  case (Some s)
  then show ?thesis
    by (simp add: lookup_None lookup_Some cmd_table_def)
qed

theorem lookup_exact_witness:
  "0 \<le> lookup (Some ''cd'')
   \<and> nat (lookup (Some ''cd'')) < length cmd_table
   \<and> Some (cmd (cmd_table ! nat (lookup (Some ''cd'')))) = Some ''cd''"
proof -
  have found: "0 \<le> lookup (Some ''cd'')"
    by (simp add: lookup_Some)
  from lookup_exact [of "Some ''cd''"]
  have "0 \<le> lookup (Some ''cd'') \<longrightarrow>
        nat (lookup (Some ''cd'')) < length cmd_table
        \<and> Some (cmd (cmd_table ! nat (lookup (Some ''cd'')))) = Some ''cd''"
    by (elim conjE)
  with found show ?thesis
    by blast
qed

text \<open>
  Claim C1 as stated names the help command \<open>help\<close>. The table registers it under
  \<open>?\<close>, so \<open>help\<close> is not found.
\<close>

theorem lookup_help_not_registered:
  "lookup (Some ''help'') = - 1 \<and> ''help'' \<notin> set (map cmd cmd_table)"
  by (simp add: lookup_def cmd_table_def)

section \<open>Spawning external programs\<close>

lemma argv_exec_eq: "argv_exec tokens = map Some tokens @ [None]"
proof -
  have "map (tokens_get_token tokens) [0..<length tokens]
        = map (\<lambda>i. Some (tokens ! i)) [0..<length tokens]"
    by (rule map_cong) (simp_all add: tokens_get_token_def)
  also have "\<dots> = map Some (map ((!) tokens) [0..<length tokens])"
    by (simp add: comp_def)
  also have "\<dots> = map Some tokens"
    by (simp only: map_nth)
  finally show ?thesis
    by (simp add: argv_exec_def tokens_get_length_def Let_def)
qed

lemma child_Cons:
  "child os n (t # ts) =
    (case os_execv os n t (Some t # map Some ts @ [None]) of
       Exec_fails e \<Rightarrow>
         ([Execv (Some t) (Some t # map Some ts @ [None]) (Exec_fails e), Perror (Some t) e,
           Child_exit EXIT_FAILURE], True)
     | Program_exits s \<Rightarrow>
         ([Execv (Some t) (Some t # map Some ts @ [None]) (Program_exits s)], True)
     | Program_runs_forever \<Rightarrow>
         ([Execv (Some t) (Some t # map Some ts @ [None]) Program_runs_forever], False))"
  by (simp add: child_def argv_exec_eq execv_def Let_def split: exec_result.splits)



lemma dispatch_external:
  "lookup (tokens_get_token tokens 0) < 0 \<Longrightarrow> dispatch os n d tokens = spawn os n d tokens"
  by (simp add: dispatch_def Let_def)






lemma spawn_forked:
  "os_fork os n = Fork_ok pid \<Longrightarrow> child os n tokens = (cevs, terminates) \<Longrightarrow>
   spawn os n d tokens =
     (if terminates then (Fork (Fork_ok pid) # cevs @ [Wait Reaped], Continue d)
      else (Fork (Fork_ok pid) # cevs, Terminated Blocked_in_wait))"
  by (simp add: spawn_def)

text \<open>The source does not test for a failed \<open>fork\<close>: no child runs, \<open>wait\<close> returns
  at once, nothing is reported and the loop goes on.\<close>

lemma spawn_fork_failed:
  "os_fork os n = Fork_error e \<Longrightarrow>
   spawn os n d tokens = ([Fork (Fork_error e), Wait No_child], Continue d)"
  by (simp add: spawn_def)

lemma EXIT_FAILURE_nonzero: "EXIT_FAILURE \<noteq> 0"
  by (simp add: EXIT_FAILURE_def)

text \<open>
  Claim C2. For a line whose first token \<open>t\<close> is not a builtin name, \<open>main\<close> takes the
  spawn path. The argument vector holds \<open>t\<close> itself at index 0, then the remaining
  tokens in order, then the null pointer. The child calls \<open>execv\<close> with \<open>t\<close> as the
  path, unchanged. When \<open>execv\<close> succeeds the child's only event is that call: the image
  is replaced. When it fails with \<open>e\<close> the child calls \<open>perror\<close> with \<open>t\<close> and exits
  with \<open>EXIT_FAILURE\<close>, which is not zero. After a successful \<open>fork\<close> these events of
  the child follow the \<open>Fork\<close> event.
\<close>

theorem spawn_protocol:
  assumes "lookup (Some t) < 0"
  shows "dispatch os n d (t # ts) = spawn os n d (t # ts)
    \<and> argv_exec (t # ts) = Some t # map Some ts @ [None]
    \<and> child os n (t # ts) =
        (case os_execv os n t (argv_exec (t # ts)) of
           Exec_fails e \<Rightarrow>
             ([Execv (Some t) (argv_exec (t # ts)) (Exec_fails e), Perror (Some t) e,
               Child_exit EXIT_FAILURE], True)
         | Program_exits s \<Rightarrow> ([Execv (Some t) (argv_exec (t # ts)) (Program_exits s)], True)
         | Program_runs_forever \<Rightarrow>
             ([Execv (Some t) (argv_exec (t # ts)) Program_runs_forever], False))
    \<and> EXIT_FAILURE \<noteq> 0
    \<and> (os_fork os n = Fork_ok pid \<longrightarrow>
         fst (spawn os n d (t # ts)) =
           Fork (Fork_ok pid) # fst (child os n (t # ts))
             @ (if snd (child os n (t # ts)) then [Wait Reaped] else []))"
proof -
  have "lookup (tokens_get_token (t # ts) 0) < 0"
    using assms by (simp add: tokens_get_token_def)
  then have a: "dispatch os n d (t # ts) = spawn os n d (t # ts)"
    by (rule dispatch_external)
  have b: "argv_exec (t # ts) = Some t # map Some ts @ [None]"
    by (simp add: argv_exec_eq)
  have c: "os_fork os n = Fork_ok pid \<longrightarrow>
         fst (spawn os n d (t # ts)) =
           Fork (Fork_ok pid) # fst (child os n (t # ts))
             @ (if snd (child os n (t # ts)) then [Wait Reaped] else [])"
    by (cases "child os n (t # ts)") (simp add: spawn_forked)
  have e: "child os n (t # ts) =
        (case os_execv os n t (argv_exec (t # ts)) of
           Exec_fails e \<Rightarrow>
             ([Execv (Some t) (argv_exec (t # ts)) (Exec_fails e), Perror (Some t) e,
               Child_exit EXIT_FAILURE], True)
         | Program_exits s \<Rightarrow> ([Execv (Some t) (argv_exec (t # ts)) (Program_exits s)], True)
         | Program_runs_forever \<Rightarrow>
             ([Execv (Some t) (argv_exec (t # ts)) Program_runs_forever], False))"
    unfolding b by (rule child_Cons)
  from a b e EXIT_FAILURE_nonzero c show ?thesis
    by (intro conjI)
qed

theorem spawn_protocol_witness:
  "lookup (Some ''/x'') < 0
   \<and> child demo_os 0 [''/x'', ''-l''] =
       ([Execv (Some ''/x'') [Some ''/x'', Some ''-l'', None] (Exec_fails ENOENT),
         Perror (Some ''/x'') ENOENT, Child_exit 1], True)"
proof -
  have h: "lookup (Some ''/x'') < 0"
    by (simp add: lookup_Some)
  from spawn_protocol [OF h, of demo_os 0 "''/''" "[''-l'']" 100]
  have "child demo_os 0 [''/x'', ''-l''] =
        (case os_execv demo_os 0 ''/x'' (argv_exec [''/x'', ''-l'']) of
           Exec_fails e \<Rightarrow>
             ([Execv (Some ''/x'') (argv_exec [''/x'', ''-l'']) (Exec_fails e),
               Perror (Some ''/x'') e, Child_exit EXIT_FAILURE], True)
         | Program_exits s \<Rightarrow>
             ([Execv (Some ''/x'') (argv_exec [''/x'', ''-l'']) (Program_exits s)], True)
         | Program_runs_forever \<Rightarrow>
             ([Execv (Some ''/x'') (argv_exec [''/x'', ''-l'']) Program_runs_forever], False))"
    by (elim conjE)
  then show ?thesis
    using h by (simp add: demo_os_def argv_exec_eq EXIT_FAILURE_def)
qed





section \<open>The builtin \<open>cd\<close>\<close>

lemma chdir_or_perror_Some:
  "chdir_or_perror os n d (Some p) =
    (case os_chdir os n d p of
       Inr d' \<Rightarrow> ([Chdir (Some p) None], d')
     | Inl e \<Rightarrow> ([Chdir (Some p) (Some e), Perror (Some ''cd'') e], d))"
  by (simp add: chdir_or_perror_def chdir_def)

lemma dispatch_cd:
  "dispatch os n d (''cd'' # args) =
    (case cmd_cd os n d (''cd'' # args) of
       (evs, Ret v d') \<Rightarrow> (evs, Continue d')
     | (evs, Exits s) \<Rightarrow> (evs, Terminated (Exit_called s)))"
  by (simp add: dispatch_def tokens_get_token_def lookup_Some cmd_table_def)

text \<open>
  Claim C4. With no argument token \<open>cmd_cd\<close> reads \<open>HOME\<close>. If it is unset, it writes
  a message to standard error and the working directory stays \<open>d\<close>. If it is set, it
  calls \<open>chdir\<close> with its value; with an argument token \<open>a\<close> it calls \<open>chdir\<close> with
  \<open>a\<close>. When \<open>chdir\<close> succeeds the working directory is the directory that path names;
  when it fails with \<open>e\<close>, \<open>perror("cd")\<close> reports it and the working directory stays
  \<open>d\<close>. The loop calls this handler for a line whose first token is \<open>cd\<close> and goes on
  in the directory the handler leaves.
\<close>

theorem cmd_cd_behaviour:
  "cmd_cd os n d [c] =
     (case os_getenv os ''HOME'' of
        None \<Rightarrow>
          ([Getenv ''HOME'' None, Stderr (''No HOME environment variable set.'' @ [newline])],
           Ret 1 d)
      | Some home \<Rightarrow>
          (case os_chdir os n d home of
             Inr d' \<Rightarrow> ([Getenv ''HOME'' (Some home), Chdir (Some home) None], Ret 1 d')
           | Inl e \<Rightarrow>
               ([Getenv ''HOME'' (Some home), Chdir (Some home) (Some e),
                 Perror (Some ''cd'') e], Ret 1 d)))
   \<and> cmd_cd os n d (c # a # as) =
     (case os_chdir os n d a of
        Inr d' \<Rightarrow> ([Chdir (Some a) None], Ret 1 d')
      | Inl e \<Rightarrow> ([Chdir (Some a) (Some e), Perror (Some ''cd'') e], Ret 1 d))
   \<and> dispatch os n d (''cd'' # args) =
     (fst (cmd_cd os n d (''cd'' # args)),
      Continue (case snd (cmd_cd os n d (''cd'' # args)) of Ret v d' \<Rightarrow> d' | Exits s \<Rightarrow> d))"
proof -
  have a: "cmd_cd os n d [c] =
     (case os_getenv os ''HOME'' of
        None \<Rightarrow>
          ([Getenv ''HOME'' None, Stderr (''No HOME environment variable set.'' @ [newline])],
           Ret 1 d)
      | Some home \<Rightarrow>
          (case os_chdir os n d home of
             Inr d' \<Rightarrow> ([Getenv ''HOME'' (Some home), Chdir (Some home) None], Ret 1 d')
           | Inl e \<Rightarrow>
               ([Getenv ''HOME'' (Some home), Chdir (Some home) (Some e),
                 Perror (Some ''cd'') e], Ret 1 d)))"
    by (simp add: cmd_cd_def tokens_get_length_def chdir_or_perror_Some
        split: option.splits sum.splits)
  have b: "cmd_cd os n d (c # a # as) =
     (case os_chdir os n d a of
        Inr d' \<Rightarrow> ([Chdir (Some a) None], Ret 1 d')
      | Inl e \<Rightarrow> ([Chdir (Some a) (Some e), Perror (Some ''cd'') e], Ret 1 d))"
    by (simp add: cmd_cd_def tokens_get_length_def tokens_get_token_def chdir_or_perror_Some
        split: sum.splits)
  have "\<exists>evs v d'. cmd_cd os n d (''cd'' # args) = (evs, Ret v d')"
    by (simp add: cmd_cd_def split: option.splits prod.splits)
  then have c: "dispatch os n d (''cd'' # args) =
     (fst (cmd_cd os n d (''cd'' # args)),
      Continue (case snd (cmd_cd os n d (''cd'' # args)) of Ret v d' \<Rightarrow> d' | Exits s \<Rightarrow> d))"
    by (auto simp: dispatch_cd)
  from a b c show ?thesis
    by (intro conjI)
qed

theorem cmd_cd_behaviour_witness:
  "cmd_cd demo_os 0 ''/'' [''cd''] =
     ([Getenv ''HOME'' (Some ''/home/u''), Chdir (Some ''/home/u'') None], Ret 1 ''/home/u'')
   \<and> cmd_cd broken_tty_os 0 ''/'' [''cd''] =
     ([Getenv ''HOME'' None, Stderr (''No HOME environment variable set.'' @ [newline])],
      Ret 1 ''/'')
   \<and> cmd_cd demo_os 0 ''/'' [''cd'', ''/tmp''] = ([Chdir (Some ''/tmp'') None], Ret 1 ''/tmp'')
   \<and> cmd_cd demo_os 0 ''/'' [''cd'', ''/no''] =
     ([Chdir (Some ''/no'') (Some ENOENT), Perror (Some ''cd'') ENOENT], Ret 1 ''/'')"
  using cmd_cd_behaviour [of demo_os 0 "''/''" "''cd''" "''/tmp''" "[]" "[]"]
    cmd_cd_behaviour [of broken_tty_os 0 "''/''" "''cd''" "''/no''" "[]" "[]"]
    cmd_cd_behaviour [of demo_os 0 "''/''" "''cd''" "''/no''" "[]" "[]"]
  by (simp add: demo_os_def broken_tty_os_def)

section \<open>Initialization\<close>

lemma foreground_loop_found:
  "k \<le> m \<Longrightarrow> \<forall>j. k \<le> j \<and> j < m \<longrightarrow> os_tcgetpgrp os j fd \<noteq> os_getpgrp os j \<Longrightarrow>
   os_tcgetpgrp os m fd = os_getpgrp os m \<Longrightarrow>
   foreground_loop os fd k evs =
     Some (os_getpgrp os m, evs @ map (\<lambda>j. Kill (- os_getpgrp os j) SIGTTIN) [k..<m])"
proof (induction "m - k" arbitrary: k evs)
  case 0
  then have "k = m" by simp
  with 0 show ?case
    by (simp add: foreground_loop.simps [of os fd m evs])
next
  case (Suc x)
  then have less: "k < m" by simp
  with Suc.prems have differ: "os_tcgetpgrp os k fd \<noteq> os_getpgrp os k"
    by simp
  have "foreground_loop os fd (Suc k) (evs @ [Kill (- os_getpgrp os k) SIGTTIN]) =
      Some (os_getpgrp os m, (evs @ [Kill (- os_getpgrp os k) SIGTTIN])
        @ map (\<lambda>j. Kill (- os_getpgrp os j) SIGTTIN) [Suc k..<m])"
    using Suc.hyps(2) Suc.prems less by (intro Suc.hyps(1)) auto
  with differ less show ?case
    by (simp add: foreground_loop.simps [of os fd k evs] upt_conv_Cons)
qed

lemma foreground_loop_Some:
  assumes "foreground_loop os fd k evs = Some r"
  shows "\<exists>m\<ge>k. os_tcgetpgrp os m fd = os_getpgrp os m"
proof -
  have step: "\<exists>m\<ge>k'. os_tcgetpgrp os' m fd' = os_getpgrp os' m"
    if ih: "\<And>a b c d y. loop a b c d = Some y \<Longrightarrow> \<exists>m\<ge>c. os_tcgetpgrp a m b = os_getpgrp a m"
      and eq: "(let pgid = os_getpgrp os' k'
                in if os_tcgetpgrp os' k' fd' \<noteq> pgid
                   then loop os' fd' (Suc k') (evs' @ [Kill (- pgid) SIGTTIN])
                   else Some (pgid, evs')) = Some r'"
    for loop :: "'a os \<Rightarrow> int \<Rightarrow> nat \<Rightarrow> event list \<Rightarrow> (int \<times> event list) option"
      and os' fd' k' evs' r'
  proof (cases "os_tcgetpgrp os' k' fd' = os_getpgrp os' k'")
    case True
    then show ?thesis by blast
  next
    case False
    with eq have "loop os' fd' (Suc k') (evs' @ [Kill (- os_getpgrp os' k') SIGTTIN]) = Some r'"
      by (simp add: Let_def)
    then have "\<exists>m\<ge>Suc k'. os_tcgetpgrp os' m fd' = os_getpgrp os' m"
      by (rule ih)
    then obtain m where "Suc k' \<le> m" "os_tcgetpgrp os' m fd' = os_getpgrp os' m"
      by blast
    then show ?thesis
      by (intro exI [of _ m]) simp
  qed
  show ?thesis
    by (rule foreground_loop.raw_induct
        [where P = "\<lambda>os fd k evs r. \<exists>m\<ge>k. os_tcgetpgrp os m fd = os_getpgrp os m",
          OF step assms])
qed

lemma foreground_loop_never:
  "(foreground_loop os fd 0 [] = None) = (\<forall>j. os_tcgetpgrp os j fd \<noteq> os_getpgrp os j)"
proof
  assume none: "foreground_loop os fd 0 [] = None"
  show "\<forall>j. os_tcgetpgrp os j fd \<noteq> os_getpgrp os j"
  proof (rule ccontr)
    assume "\<not> (\<forall>j. os_tcgetpgrp os j fd \<noteq> os_getpgrp os j)"
    then have ex: "\<exists>j. os_tcgetpgrp os j fd = os_getpgrp os j"
      by simp
    define m where "m = (LEAST j. os_tcgetpgrp os j fd = os_getpgrp os j)"
    have "os_tcgetpgrp os m fd = os_getpgrp os m"
      unfolding m_def using ex by (rule LeastI_ex)
    moreover have "\<forall>j. 0 \<le> j \<and> j < m \<longrightarrow> os_tcgetpgrp os j fd \<noteq> os_getpgrp os j"
      unfolding m_def using not_less_Least by blast
    ultimately have "foreground_loop os fd 0 [] \<noteq> None"
      using foreground_loop_found [of 0 m os fd "[]"] by simp
    with none show False by simp
  qed
next
  assume never: "\<forall>j. os_tcgetpgrp os j fd \<noteq> os_getpgrp os j"
  show "foreground_loop os fd 0 [] = None"
  proof (cases "foreground_loop os fd 0 []")
    case None
    then show ?thesis .
  next
    case (Some r)
    then have "\<exists>m\<ge>0. os_tcgetpgrp os m fd = os_getpgrp os m"
      by (rule foreground_loop_Some)
    with never show ?thesis by simp
  qed
qed

lemma init_shell_not_tty:
  "\<not> os_isatty os STDIN_FILENO \<Longrightarrow>
   init_shell os g =
     Some (g\<lparr>shell_terminal := STDIN_FILENO, shell_is_interactive := False\<rparr>, [])"
  by (simp add: init_shell_def Let_def)

lemma init_shell_tty:
  "os_isatty os STDIN_FILENO \<Longrightarrow>
   init_shell os g =
     (case foreground_loop os STDIN_FILENO 0 [] of
        None \<Rightarrow> None
      | Some (pgid, evs) \<Rightarrow>
          Some (g\<lparr>shell_terminal := STDIN_FILENO, shell_is_interactive := True,
                  shell_pgid := os_getpid os,
                  shell_tmodes := (case os_tcgetattr os STDIN_FILENO of
                                     Inr t \<Rightarrow> Some t | Inl e \<Rightarrow> shell_tmodes g)\<rparr>,
                evs @ [Tcsetpgrp STDIN_FILENO (os_getpid os)
                         (os_tcsetpgrp os STDIN_FILENO (os_getpid os)),
                       Tcgetattr STDIN_FILENO
                         (case os_tcgetattr os STDIN_FILENO of
                            Inr t \<Rightarrow> None | Inl e \<Rightarrow> Some e)]))"
  by (simp add: init_shell_def Let_def split: option.splits sum.splits)

text \<open>
  Claim C8. If standard input is not a terminal, \<open>init_shell\<close> marks the session
  non-interactive and makes no terminal-control call; the process-group id and the saved
  modes stay as they were. If it is a terminal, the loop compares the terminal's
  foreground group with the shell's own group and, for every poll at which they differ,
  sends \<open>SIGTTIN\<close> to the shell's group and polls again. At the first poll \<open>m\<close> at which
  they are equal, the shell's process id becomes \<open>shell_pgid\<close>, \<open>tcsetpgrp\<close> is called
  with it, and \<open>tcgetattr\<close> is called, whose result, when it succeeds, is stored in
  \<open>shell_tmodes\<close>. If the groups never become equal, \<open>init_shell\<close> does not return.
\<close>

theorem init_shell_algorithm:
  "(\<not> os_isatty os STDIN_FILENO \<longrightarrow>
      init_shell os g =
        Some (g\<lparr>shell_terminal := STDIN_FILENO, shell_is_interactive := False\<rparr>, []))
   \<and> (os_isatty os STDIN_FILENO
        \<and> (\<forall>j<m. os_tcgetpgrp os j STDIN_FILENO \<noteq> os_getpgrp os j)
        \<and> os_tcgetpgrp os m STDIN_FILENO = os_getpgrp os m \<longrightarrow>
      init_shell os g =
        Some (g\<lparr>shell_terminal := STDIN_FILENO, shell_is_interactive := True,
                shell_pgid := os_getpid os,
                shell_tmodes := (case os_tcgetattr os STDIN_FILENO of
                                   Inr t \<Rightarrow> Some t | Inl e \<Rightarrow> shell_tmodes g)\<rparr>,
              map (\<lambda>j. Kill (- os_getpgrp os j) SIGTTIN) [0..<m]
                @ [Tcsetpgrp STDIN_FILENO (os_getpid os)
                     (os_tcsetpgrp os STDIN_FILENO (os_getpid os)),
                   Tcgetattr STDIN_FILENO
                     (case os_tcgetattr os STDIN_FILENO of Inr t \<Rightarrow> None | Inl e \<Rightarrow> Some e)]))
   \<and> (os_isatty os STDIN_FILENO
        \<and> (\<forall>j. os_tcgetpgrp os j STDIN_FILENO \<noteq> os_getpgrp os j) \<longrightarrow>
      init_shell os g = None)"
proof (intro conjI impI)
  assume "\<not> os_isatty os STDIN_FILENO"
  then show "init_shell os g =
      Some (g\<lparr>shell_terminal := STDIN_FILENO, shell_is_interactive := False\<rparr>, [])"
    by (rule init_shell_not_tty)
next
  assume a: "os_isatty os STDIN_FILENO
        \<and> (\<forall>j<m. os_tcgetpgrp os j STDIN_FILENO \<noteq> os_getpgrp os j)
        \<and> os_tcgetpgrp os m STDIN_FILENO = os_getpgrp os m"
  then have "foreground_loop os STDIN_FILENO 0 [] =
      Some (os_getpgrp os m, [] @ map (\<lambda>j. Kill (- os_getpgrp os j) SIGTTIN) [0..<m])"
    by (intro foreground_loop_found) simp_all
  with a show "init_shell os g =
        Some (g\<lparr>shell_terminal := STDIN_FILENO, shell_is_interactive := True,
                shell_pgid := os_getpid os,
                shell_tmodes := (case os_tcgetattr os STDIN_FILENO of
                                   Inr t \<Rightarrow> Some t | Inl e \<Rightarrow> shell_tmodes g)\<rparr>,
              map (\<lambda>j. Kill (- os_getpgrp os j) SIGTTIN) [0..<m]
                @ [Tcsetpgrp STDIN_FILENO (os_getpid os)
                     (os_tcsetpgrp os STDIN_FILENO (os_getpid os)),
                   Tcgetattr STDIN_FILENO
                     (case os_tcgetattr os STDIN_FILENO of Inr t \<Rightarrow> None | Inl e \<Rightarrow> Some e)])"
    by (simp add: init_shell_tty)
next
  assume a: "os_isatty os STDIN_FILENO
        \<and> (\<forall>j. os_tcgetpgrp os j STDIN_FILENO \<noteq> os_getpgrp os j)"
  then have "foreground_loop os STDIN_FILENO 0 [] = None"
    by (simp add: foreground_loop_never)
  with a show "init_shell os g = None"
    by (simp add: init_shell_tty)
qed


theorem init_shell_algorithm_witness:
  "init_shell demo_os globals0 =
     Some (\<lparr>shell_is_interactive = True, shell_terminal = 0, shell_tmodes = Some (Termios 5),
            shell_pgid = 42\<rparr>,
           [Kill (- 42) SIGTTIN, Kill (- 42) SIGTTIN, Tcsetpgrp 0 42 None, Tcgetattr 0 None])
   \<and> init_shell piped_os globals0 = Some (globals0, [])"
proof -
  have tty: "os_isatty demo_os STDIN_FILENO
        \<and> (\<forall>j<2. os_tcgetpgrp demo_os j STDIN_FILENO \<noteq> os_getpgrp demo_os j)
        \<and> os_tcgetpgrp demo_os 2 STDIN_FILENO = os_getpgrp demo_os 2"
    by (simp add: demo_os_def)
  have pipe: "\<not> os_isatty piped_os STDIN_FILENO"
    by (simp add: piped_os_def demo_os_def)
  have upt: "[0..<2] = [0, Suc 0]"
    by (simp add: upt_conv_Cons)
  from init_shell_algorithm [of demo_os globals0 2] tty
  have a: "init_shell demo_os globals0 =
        Some (globals0\<lparr>shell_terminal := STDIN_FILENO, shell_is_interactive := True,
                shell_pgid := os_getpid demo_os,
                shell_tmodes := (case os_tcgetattr demo_os STDIN_FILENO of
                                   Inr t \<Rightarrow> Some t | Inl e \<Rightarrow> shell_tmodes globals0)\<rparr>,
              map (\<lambda>j. Kill (- os_getpgrp demo_os j) SIGTTIN) [0..<2]
                @ [Tcsetpgrp STDIN_FILENO (os_getpid demo_os)
                     (os_tcsetpgrp demo_os STDIN_FILENO (os_getpid demo_os)),
                   Tcgetattr STDIN_FILENO
                     (case os_tcgetattr demo_os STDIN_FILENO of
                        Inr t \<Rightarrow> None | Inl e \<Rightarrow> Some e)])"
    by blast
  from init_shell_algorithm [of piped_os globals0 0] pipe
  have b: "init_shell piped_os globals0 =
        Some (globals0\<lparr>shell_terminal := STDIN_FILENO, shell_is_interactive := False\<rparr>, [])"
    by blast
  show ?thesis
    unfolding a b upt by (simp add: demo_os_def globals0_def STDIN_FILENO_def)
qed

lemma init_shell_None:
  "(init_shell os g = None) =
     (os_isatty os STDIN_FILENO \<and> (\<forall>j. os_tcgetpgrp os j STDIN_FILENO \<noteq> os_getpgrp os j))"
proof (cases "os_isatty os STDIN_FILENO")
  case True
  then show ?thesis
    by (simp add: init_shell_tty foreground_loop_never [symmetric] split: option.splits)
next
  case False
  then show ?thesis
    by (simp add: init_shell_not_tty)
qed

lemma foreground_loop_events:
  "foreground_loop os fd k evs = Some (pgid, evs') \<Longrightarrow> \<not> list_ex is_report evs \<Longrightarrow>
   \<not> list_ex is_report evs'"
proof -
  assume some: "foreground_loop os fd k evs = Some (pgid, evs')"
    and quiet: "\<not> list_ex is_report evs"
  from some obtain m where "k \<le> m" and "os_tcgetpgrp os m fd = os_getpgrp os m"
    using foreground_loop_Some by blast
  define l where "l = (LEAST j. k \<le> j \<and> os_tcgetpgrp os j fd = os_getpgrp os j)"
  have l: "k \<le> l \<and> os_tcgetpgrp os l fd = os_getpgrp os l"
    unfolding l_def
    using \<open>k \<le> m\<close> \<open>os_tcgetpgrp os m fd = os_getpgrp os m\<close>
    by (intro LeastI [of "\<lambda>j. k \<le> j \<and> os_tcgetpgrp os j fd = os_getpgrp os j" m]) simp
  have "\<forall>j. k \<le> j \<and> j < l \<longrightarrow> os_tcgetpgrp os j fd \<noteq> os_getpgrp os j"
    unfolding l_def using not_less_Least by blast
  with l have "foreground_loop os fd k evs =
      Some (os_getpgrp os l, evs @ map (\<lambda>j. Kill (- os_getpgrp os j) SIGTTIN) [k..<l])"
    by (intro foreground_loop_found) simp_all
  with some have "evs' = evs @ map (\<lambda>j. Kill (- os_getpgrp os j) SIGTTIN) [k..<l]"
    by simp
  with quiet show ?thesis
    by (auto simp: list_ex_iff)
qed

lemma init_shell_events:
  "init_shell os g = Some (g', evs) \<Longrightarrow>
   \<not> list_ex is_report evs \<and> shell_is_interactive g' = os_isatty os STDIN_FILENO"
proof (cases "os_isatty os STDIN_FILENO")
  case False
  assume "init_shell os g = Some (g', evs)"
  with False show ?thesis
    by (auto simp: init_shell_not_tty)
next
  case True
  assume some: "init_shell os g = Some (g', evs)"
  with True obtain pgid fevs where f: "foreground_loop os STDIN_FILENO 0 [] = Some (pgid, fevs)"
    by (auto simp: init_shell_tty split: option.splits)
  then have "\<not> list_ex is_report fevs"
    by (rule foreground_loop_events) simp
  with True some f show ?thesis
    by (auto simp: init_shell_tty)
qed

lemma init_shell_broken_tty:
  "init_shell broken_tty_os globals0 =
     Some (\<lparr>shell_is_interactive = True, shell_terminal = 0, shell_tmodes = None,
            shell_pgid = 42\<rparr>,
           [Tcsetpgrp 0 42 (Some EPERM), Tcgetattr 0 (Some ENOTTY)])"
proof -
  have "foreground_loop broken_tty_os STDIN_FILENO 0 [] = Some (42, [])"
    by (subst foreground_loop.simps) (simp add: broken_tty_os_def demo_os_def)
  moreover have "os_isatty broken_tty_os STDIN_FILENO"
    by (simp add: broken_tty_os_def demo_os_def)
  ultimately show ?thesis
    by (simp add: init_shell_tty) (simp add: broken_tty_os_def demo_os_def globals0_def
        STDIN_FILENO_def)
qed

text \<open>
  Claim C9, as the code has it. \<open>init_shell\<close> tests no result of a terminal-control
  call and writes nothing to standard error: when it returns, none of its events is a
  report. A failure of \<open>tcsetpgrp\<close> or \<open>tcgetattr\<close> does not keep it from returning: it
  returns unless standard input is a terminal whose foreground group never becomes the
  shell's group. When it returns, the session is marked interactive exactly if standard
  input is a terminal, whatever failed, and \<open>main\<close> goes on to its loop.
\<close>

theorem init_shell_failures_silent:
  "(init_shell os g = Some (g', ievs) \<longrightarrow>
      \<not> list_ex is_report ievs \<and> shell_is_interactive g' = os_isatty os STDIN_FILENO)
   \<and> (init_shell os g = None) =
       (os_isatty os STDIN_FILENO
        \<and> (\<forall>j. os_tcgetpgrp os j STDIN_FILENO \<noteq> os_getpgrp os j))
   \<and> (init_shell os globals0 = Some (g', ievs) \<longrightarrow>
        main os inp d =
          Some (ievs @ (if shell_is_interactive g' then [prompt 0] else [])
                  @ fst (main_loop os g' \<lparr>stdin = inp, cwd = d, line_num = 0, iter = 0\<rparr>),
                snd (main_loop os g' \<lparr>stdin = inp, cwd = d, line_num = 0, iter = 0\<rparr>)))"
proof -
  have a: "init_shell os g = Some (g', ievs) \<longrightarrow>
      \<not> list_ex is_report ievs \<and> shell_is_interactive g' = os_isatty os STDIN_FILENO"
    using init_shell_events [of os g g' ievs] by blast
  have b: "(init_shell os g = None) =
       (os_isatty os STDIN_FILENO
        \<and> (\<forall>j. os_tcgetpgrp os j STDIN_FILENO \<noteq> os_getpgrp os j))"
    by (rule init_shell_None)
  have c: "init_shell os globals0 = Some (g', ievs) \<longrightarrow>
        main os inp d =
          Some (ievs @ (if shell_is_interactive g' then [prompt 0] else [])
                  @ fst (main_loop os g' \<lparr>stdin = inp, cwd = d, line_num = 0, iter = 0\<rparr>),
                snd (main_loop os g' \<lparr>stdin = inp, cwd = d, line_num = 0, iter = 0\<rparr>))"
    by (simp add: main_def split: prod.splits)
  from a b c show ?thesis
    by blast
qed

theorem init_shell_failures_silent_witness:
  "\<not> list_ex is_report [Tcsetpgrp 0 42 (Some EPERM), Tcgetattr 0 (Some ENOTTY)]
   \<and> os_isatty broken_tty_os STDIN_FILENO
   \<and> init_shell broken_tty_os globals0 \<noteq> None"
proof -
  note h = init_shell_broken_tty
  from init_shell_failures_silent [of broken_tty_os globals0
      "\<lparr>shell_is_interactive = True, shell_terminal = 0, shell_tmodes = None, shell_pgid = 42\<rparr>"
      "[Tcsetpgrp 0 42 (Some EPERM), Tcgetattr 0 (Some ENOTTY)]" "[]" "[]"] h
  have "\<not> list_ex is_report [Tcsetpgrp 0 42 (Some EPERM), Tcgetattr 0 (Some ENOTTY)]
      \<and> True = os_isatty broken_tty_os STDIN_FILENO"
    by simp
  with h show ?thesis
    by simp
qed

text \<open>
  Claim C9 as stated has a failed terminal-control operation surfaced on the error
  channel. On a terminal where both \<open>tcsetpgrp\<close> and \<open>tcgetattr\<close> fail, \<open>init_shell\<close>
  makes the two calls and reports neither failure.
\<close>

theorem init_shell_failure_unreported:
  "init_shell broken_tty_os globals0 =
     Some (\<lparr>shell_is_interactive = True, shell_terminal = 0, shell_tmodes = None,
            shell_pgid = 42\<rparr>,
           [Tcsetpgrp 0 42 (Some EPERM), Tcgetattr 0 (Some ENOTTY)])
   \<and> \<not> list_ex is_report [Tcsetpgrp 0 42 (Some EPERM), Tcgetattr 0 (Some ENOTTY)]"
  by (simp add: init_shell_broken_tty)

section \<open>The loop of \<open>main\<close>\<close>










lemma body_ok_child: "body_ok (fst (child os n tokens))"
  by (simp add: body_ok_def child_def Let_def is_failure_def EXIT_FAILURE_def
      split: exec_result.splits)











lemma lines_read_none: "\<forall>e\<in>set xs. \<not> is_read e \<Longrightarrow> lines_read xs = []"
  by (induction xs) (auto split: event.splits option.splits)




lemma body_ok_no_read: "body_ok evs \<Longrightarrow> lines_read evs = []"
  by (simp add: body_ok_def lines_read_none)

























subsection \<open>Three runs\<close>











end
